theory Spec2Isabelle
  imports Main "HOL-Library.Word"
begin

section \<open>Errors\<close>

text \<open>
  A Go \<^verbatim>\<open>error\<close> value is modelled by its message; \<^verbatim>\<open>nil\<close> is \<open>None\<close> of
  \<open>error option\<close>.  \<^verbatim>\<open>fmt.Errorf("prefix: %w", err)\<close> wraps \<open>err\<close>: the message of
  the result is the prefix followed by the message of \<open>err\<close>.
\<close>

datatype error = Error string

fun Errorf_w :: "string \<Rightarrow> error \<Rightarrow> error" where
  "Errorf_w prefix (Error msg) = Error (prefix @ msg)"

section \<open>The shim: output path\<close>

text \<open>
  \<^verbatim>\<open>Shim.writeProcessedMetrics\<close> talks to three collaborators that are not part of
  the function: the influx serializer, the writer behind \<^verbatim>\<open>s.stdout\<close>, and the
  metrics themselves (\<^verbatim>\<open>Accept\<close>, \<^verbatim>\<open>Reject\<close>, \<^verbatim>\<open>Drop\<close>).  The serializer and the
  writer are parameters of the model; every call the function makes on a collaborator
  is appended to a chronological call log.
\<close>

datatype disposition = Accept | Reject | Drop

datatype 'm call =
    CSerialize 'm
  | CFprint string "error option"
  | CDispose 'm disposition

record ('m, 'w) shim_env =
  Init :: "error option"
  Serialize :: "'m \<Rightarrow> error + string"
  Fprint :: "'w \<Rightarrow> string \<Rightarrow> 'w \<times> error option"

record ('m, 'w) shim =
  stdout :: 'w
  cancelled :: bool
  calls :: "'m call list"

text \<open>
  What happens around the function while it runs: a metric arrives on \<^verbatim>\<open>s.metricCh\<close>, or
  the process receives SIGINT/SIGTERM.  A run is given the finite list of these events in
  the order they occur and a flag telling whether the producer closes the channel after
  them.  A receive on a channel that is empty and never closed blocks for ever.
\<close>

datatype 'm event = Send 'm | Signal

datatype outcome = Blocked | Returned "error option"

text \<open>\<^verbatim>\<open>watchForShutdown\<close>: the goroutine cancels the context and does nothing else.\<close>

definition watchForShutdown :: "('m, 'w) shim \<Rightarrow> ('m, 'w) shim" where
  "watchForShutdown s = s\<lparr>cancelled := True\<rparr>"

definition hasQuit :: "('m, 'w) shim \<Rightarrow> bool" where
  "hasQuit s = cancelled s"

definition record_call :: "'m call \<Rightarrow> ('m, 'w) shim \<Rightarrow> ('m, 'w) shim" where
  "record_call c s = s\<lparr>calls := calls s @ [c]\<rparr>"

text \<open>The \<^verbatim>\<open>for { select { case m, open := <-s.metricCh: ... } }\<close> loop.\<close>

fun receive_loop ::
  "('m, 'w) shim_env \<Rightarrow> 'm event list \<Rightarrow> bool \<Rightarrow> ('m, 'w) shim \<Rightarrow> outcome \<times> ('m, 'w) shim"
where
  "receive_loop E [] closed s = (if closed then Returned None else Blocked, s)"
| "receive_loop E (Signal # evs) closed s = receive_loop E evs closed (watchForShutdown s)"
| "receive_loop E (Send m # evs) closed s =
     (let s1 = record_call (CSerialize m) s in
      case Serialize E m of
        Inl err \<Rightarrow>
          (Returned (Some (Errorf_w ''failed to serialize metric: '' err)),
           record_call (CDispose m Reject) s1)
      | Inr b \<Rightarrow>
          (case Fprint E (stdout s1) b of
             (w, Some err) \<Rightarrow>
               (Returned (Some (Errorf_w ''failed to write metric: '' err)),
                record_call (CDispose m Drop)
                  (record_call (CFprint b (Some err)) (s1\<lparr>stdout := w\<rparr>)))
           | (w, None) \<Rightarrow>
               receive_loop E evs closed
                 (record_call (CDispose m Accept)
                    (record_call (CFprint b None) (s1\<lparr>stdout := w\<rparr>)))))"

definition writeProcessedMetrics ::
  "('m, 'w) shim_env \<Rightarrow> 'm event list \<Rightarrow> bool \<Rightarrow> ('m, 'w) shim \<Rightarrow> outcome \<times> ('m, 'w) shim"
where
  "writeProcessedMetrics E evs closed s =
     (case Init E of
        Some err \<Rightarrow> (Returned (Some (Errorf_w ''creating serializer failed: '' err)), s)
      | None \<Rightarrow> receive_loop E evs closed s)"

text \<open>Readings of the call log: the dispositions a metric has got, how often it was
  serialized, and the records whose write succeeded.\<close>

fun dispositions_on :: "'m \<Rightarrow> 'm call list \<Rightarrow> disposition list" where
  "dispositions_on m [] = []"
| "dispositions_on m (CDispose m' d # cs) =
     (if m' = m then d # dispositions_on m cs else dispositions_on m cs)"
| "dispositions_on m (c # cs) = dispositions_on m cs"

fun serializations_of :: "'m \<Rightarrow> 'm call list \<Rightarrow> nat" where
  "serializations_of m [] = 0"
| "serializations_of m (CSerialize m' # cs) =
     (if m' = m then Suc (serializations_of m cs) else serializations_of m cs)"
| "serializations_of m (c # cs) = serializations_of m cs"

fun written :: "'m call list \<Rightarrow> string list" where
  "written [] = []"
| "written (CFprint b None # cs) = b # written cs"
| "written (c # cs) = written cs"

fun sent :: "'m event list \<Rightarrow> 'm list" where
  "sent [] = []"
| "sent (Send m # evs) = m # sent evs"
| "sent (Signal # evs) = sent evs"

fun call_metric :: "'m call \<Rightarrow> 'm option" where
  "call_metric (CSerialize m) = Some m"
| "call_metric (CFprint b r) = None"
| "call_metric (CDispose m d) = Some m"

text \<open>
  \<open>deliverable E ms w\<close>: starting with the writer in state \<open>w\<close>, each metric of \<open>ms\<close> in
  turn serializes without error and the write of its record succeeds.  \<open>payload E m\<close> is
  the record the serializer produces for \<open>m\<close>.
\<close>

fun deliverable :: "('m, 'w) shim_env \<Rightarrow> 'm list \<Rightarrow> 'w \<Rightarrow> bool" where
  "deliverable E [] w = True"
| "deliverable E (m # ms) w =
     (case Serialize E m of
        Inl err \<Rightarrow> False
      | Inr b \<Rightarrow>
          (case Fprint E w b of
             (w', None) \<Rightarrow> deliverable E ms w'
           | (w', Some err) \<Rightarrow> False))"

definition payload :: "('m, 'w) shim_env \<Rightarrow> 'm \<Rightarrow> string" where
  "payload E m = (case Serialize E m of Inl err \<Rightarrow> [] | Inr b \<Rightarrow> b)"

text \<open>
  A test double for the collaborators: metrics are named by strings, a metric with the
  empty name cannot be serialized, and the writer is a pipe that accepts a fixed number
  of writes before it breaks.
\<close>

definition line_serializer :: "string \<Rightarrow> error + string" where
  "line_serializer m = (if m = [] then Inl (Error ''no fields'') else Inr (m @ ''\<newline>''))"

fun pipe_write :: "string list \<times> nat \<Rightarrow> string \<Rightarrow> (string list \<times> nat) \<times> error option" where
  "pipe_write (out, 0) b = ((out, 0), Some (Error ''broken pipe''))"
| "pipe_write (out, Suc n) b = ((out @ [b], n), None)"

definition test_env :: "(string, string list \<times> nat) shim_env" where
  "test_env = \<lparr>Init = None, Serialize = line_serializer, Fprint = pipe_write\<rparr>"

definition test_shim :: "nat \<Rightarrow> (string, string list \<times> nat) shim" where
  "test_shim n = \<lparr>stdout = ([], n), cancelled = False, calls = []\<rparr>"

section \<open>The shim: choosing the unit to run\<close>

text \<open>
  \<^verbatim>\<open>Shim.Run\<close> looks at the three plugin fields of the \<^verbatim>\<open>Shim\<close> struct; an interface
  value that is \<^verbatim>\<open>nil\<close> is \<open>None\<close>.  The methods \<^verbatim>\<open>RunInput\<close>, \<^verbatim>\<open>RunProcessor\<close> and
  \<^verbatim>\<open>RunOutput\<close> are parameters: each transforms the state of the process and either
  returns an error value or never returns.  \<open>Run\<close> reports which of them it called.
\<close>

record ('i, 'p, 'o) shim_plugins =
  Input :: "'i option"
  Processor :: "'p option"
  Output :: "'o option"

datatype unit_call = CallRunInput | CallRunProcessor | CallRunOutput

record ('i, 'p, 'o, 'st) run_env =
  RunInput :: "'i \<Rightarrow> int \<Rightarrow> 'st \<Rightarrow> outcome \<times> 'st"
  RunProcessor :: "'p \<Rightarrow> 'st \<Rightarrow> outcome \<times> 'st"
  RunOutput :: "'o \<Rightarrow> 'st \<Rightarrow> outcome \<times> 'st"

text \<open>
  \<^verbatim>\<open>if err != nil { return fmt.Errorf("...: %w", err) }\<close> followed, on the nil path, by
  the \<^verbatim>\<open>return nil\<close> that ends the function.
\<close>

fun wrap_unit_error :: "string \<Rightarrow> outcome \<Rightarrow> outcome" where
  "wrap_unit_error prefix Blocked = Blocked"
| "wrap_unit_error prefix (Returned None) = Returned None"
| "wrap_unit_error prefix (Returned (Some err)) = Returned (Some (Errorf_w prefix err))"

definition Run ::
  "('i, 'p, 'o, 'st) run_env \<Rightarrow> ('i, 'p, 'o) shim_plugins \<Rightarrow> int \<Rightarrow> 'st
     \<Rightarrow> outcome \<times> unit_call list \<times> 'st"
where
  "Run R s pollInterval st =
     (case Input s of
        Some i \<Rightarrow>
          (case RunInput R i pollInterval st of
             (r, st') \<Rightarrow> (wrap_unit_error ''running input failed: '' r, [CallRunInput], st'))
      | None \<Rightarrow>
          (case Processor s of
             Some p \<Rightarrow>
               (case RunProcessor R p st of
                  (r, st') \<Rightarrow>
                    (wrap_unit_error ''running processor failed: '' r, [CallRunProcessor], st'))
           | None \<Rightarrow>
               (case Output s of
                  Some out \<Rightarrow>
                    (case RunOutput R out st of
                       (r, st') \<Rightarrow>
                         (wrap_unit_error ''running output failed: '' r, [CallRunOutput], st'))
                | None \<Rightarrow> (Returned (Some (Error ''nothing to run'')), [], st))))"

fun returns_error :: "outcome \<Rightarrow> bool" where
  "returns_error (Returned (Some err)) = True"
| "returns_error r = False"

text \<open>
  A test double: a plugin is the outcome its run will have, and the state of the process
  counts the runs.
\<close>

definition test_run_env :: "(outcome, outcome, outcome, nat) run_env" where
  "test_run_env =
     \<lparr>RunInput = (\<lambda>i poll n. (i, Suc n)),
      RunProcessor = (\<lambda>p n. (p, Suc n)),
      RunOutput = (\<lambda>out n. (out, Suc n))\<rparr>"

section \<open>The Librato output\<close>

subsection \<open>Data\<close>

text \<open>
  \<^verbatim>\<open>float64\<close> is a type parameter \<open>'f\<close>; the conversions the code applies to field values
  and the two constants it uses come with the environment.  A field value is an
  \<^verbatim>\<open>interface{}\<close>: one constructor for each type the code distinguishes, and \<open>VOther\<close>
  (carrying its \<^verbatim>\<open>%+v\<close> rendering) for a value of any other dynamic type.  An
  \<^verbatim>\<open>int64\<close> is a 64-bit word read in two's complement (\<open>sint\<close>), a \<^verbatim>\<open>uint64\<close> one read
  with \<open>unat\<close>.
\<close>

type_synonym int64 = "64 word"
type_synonym uint64 = "64 word"

datatype 'f field_value =
    VInt64 int64
  | VUint64 uint64
  | VFloat64 'f
  | VBool bool
  | VString string
  | VOther string

record go_time =
  unix_sec :: int64
  nsec :: nat

definition Unix :: "go_time \<Rightarrow> int64" where
  "Unix t = unix_sec t"

text \<open>
  The part of \<^verbatim>\<open>telegraf.Metric\<close> the output reads.  \<open>mFields\<close> lists the entries of
  \<^verbatim>\<open>m.Fields()\<close> in the order the \<^verbatim>\<open>range\<close> loop visits them.
\<close>

record 'f metric =
  mName :: string
  mTags :: "(string \<times> string) list"
  mFields :: "(string \<times> 'f field_value) list"
  mTime :: go_time

record 'f Gauge =
  Name :: string
  Value :: 'f
  Source :: string
  MeasureTime :: int64

record request =
  req_url :: string
  req_body :: string
  req_content_type :: string
  req_user :: string
  req_token :: string

text \<open>A response: the status code and what \<^verbatim>\<open>io.ReadAll(resp.Body)\<close> yields.\<close>

record response =
  StatusCode :: int
  Body :: "string \<times> error option"

datatype 'f logline =
    Debugf_got_gauge "'f Gauge"
  | Infof_unable_to_build string
  | Debugf_couldnt_build error
  | Debugf_built_gauges "'f Gauge list"
  | Debugf_request string
  | Debugf_error_posting error
  | Debugf_couldnt_get_response error
  | Debugf_response string

text \<open>
  The \<^verbatim>\<open>Librato\<close> struct.  A secret is what its \<^verbatim>\<open>Get\<close> returns; \<open>client\<close> is the state
  of the HTTP client and of the service behind it; \<open>Log\<close> collects the lines logged.
\<close>

record ('f, 'c) Librato =
  APIUser :: "error + string"
  APIToken :: "error + string"
  Debug :: bool
  Template :: string
  APIUrl :: string
  client :: 'c
  Log :: "'f logline list"

text \<open>
  Collaborators outside the file: the float conversions, the graphite serializer that
  derives the source from the tags and the template
  (\<^verbatim>\<open>graphite.InsertField(graphite.SerializeBucketName("", tags, template, ""), "value")\<close>),
  \<^verbatim>\<open>json.Marshal\<close>, \<^verbatim>\<open>http.NewRequest\<close> (which can reject the URL) and \<^verbatim>\<open>client.Do\<close>.
\<close>

record ('f, 'c) librato_env =
  float64_of_int64 :: "int64 \<Rightarrow> 'f"
  float64_of_uint64 :: "uint64 \<Rightarrow> 'f"
  float64_zero :: 'f
  float64_one :: 'f
  metricSource_of :: "(string \<times> string) list \<Rightarrow> string \<Rightarrow> string"
  Marshal :: "'f Gauge option list \<Rightarrow> error + string"
  NewRequest :: "string \<Rightarrow> error option"
  Do :: "'c \<Rightarrow> request \<Rightarrow> 'c \<times> (error + response)"

text \<open>The result of a function that may panic.\<close>

datatype result = Done "error option" | Panic string

subsection \<open>Formatting\<close>

text \<open>
  \<^verbatim>\<open>reUnacceptedChar = regexp.MustCompile("[^.a-zA-Z0-9_-]")\<close>, and
  \<^verbatim>\<open>ReplaceAllString(s, "-")\<close>.  A string is the list of its characters.
\<close>

definition accepted_char :: "char \<Rightarrow> bool" where
  "accepted_char c =
     (let n = (of_char c :: nat) in
      c = CHR ''.'' \<or> (97 \<le> n \<and> n \<le> 122) \<or> (65 \<le> n \<and> n \<le> 90) \<or> (48 \<le> n \<and> n \<le> 57)
      \<or> c = CHR ''_'' \<or> c = CHR ''-'')"

definition replace_unaccepted :: "string \<Rightarrow> string" where
  "replace_unaccepted s = map (\<lambda>c. if accepted_char c then c else CHR ''-'') s"

text \<open>The verb \<^verbatim>\<open>%d\<close>.\<close>

function decimal :: "nat \<Rightarrow> string" where
  "decimal n = (if n < 10 then [char_of (48 + n)] else decimal (n div 10) @ [char_of (48 + n mod 10)])"
  by pat_completeness auto
termination
  by (relation "measure id") auto

declare decimal.simps [simp del]

definition format_d :: "int \<Rightarrow> string" where
  "format_d i = (if i < 0 then CHR ''-'' # decimal (nat (- i)) else decimal (nat i))"

subsection \<open>Building gauges\<close>

definition verifyValue :: "'f field_value \<Rightarrow> bool" where
  "verifyValue v = (case v of VString s \<Rightarrow> False | _ \<Rightarrow> True)"

fun setValue :: "('f, 'c) librato_env \<Rightarrow> 'f Gauge \<Rightarrow> 'f field_value \<Rightarrow> error + 'f Gauge" where
  "setValue E g (VInt64 d) = Inr (g\<lparr>Value := float64_of_int64 E d\<rparr>)"
| "setValue E g (VUint64 d) = Inr (g\<lparr>Value := float64_of_uint64 E d\<rparr>)"
| "setValue E g (VFloat64 d) = Inr (g\<lparr>Value := d\<rparr>)"
| "setValue E g (VBool d) =
     Inr (if d then g\<lparr>Value := float64_one E\<rparr> else g\<lparr>Value := float64_zero E\<rparr>)"
| "setValue E g (VString d) = Inl (Error (''undeterminable type '' @ d))"
| "setValue E g (VOther d) = Inl (Error (''undeterminable type '' @ d))"

text \<open>Lines 189-198: the name of the gauge of a field, and the gauge before its value is set.\<close>

definition new_gauge :: "('f, 'c) librato_env \<Rightarrow> 'f metric \<Rightarrow> string \<Rightarrow> string \<Rightarrow> 'f Gauge" where
  "new_gauge E m metricSource fieldName =
     (let metricName = (if fieldName \<noteq> ''value'' then mName m @ ''.'' @ fieldName else mName m)
      in \<lparr>Name = replace_unaccepted metricName,
          Value = float64_zero E,
          Source = replace_unaccepted metricSource,
          MeasureTime = Unix (mTime m)\<rparr>)"

text \<open>The \<^verbatim>\<open>for fieldName, value := range m.Fields()\<close> loop of \<^verbatim>\<open>buildGauges\<close>.\<close>

fun fields_loop ::
  "('f, 'c) librato_env \<Rightarrow> 'f metric \<Rightarrow> string \<Rightarrow> (string \<times> 'f field_value) list
     \<Rightarrow> 'f Gauge list \<Rightarrow> error + 'f Gauge list"
where
  "fields_loop E m metricSource [] gauges = Inr gauges"
| "fields_loop E m metricSource ((fieldName, v) # rest) gauges =
     (let gauge = new_gauge E m metricSource fieldName in
      if \<not> verifyValue v then fields_loop E m metricSource rest gauges
      else (case setValue E gauge v of
              Inl err \<Rightarrow> Inl (Errorf_w ''unable to extract value from Fields: '' err)
            | Inr gauge' \<Rightarrow> fields_loop E m metricSource rest (gauges @ [gauge'])))"

definition log_line :: "'f logline \<Rightarrow> ('f, 'c) Librato \<Rightarrow> ('f, 'c) Librato" where
  "log_line ln l = l\<lparr>Log := Log l @ [ln]\<rparr>"

definition buildGauges ::
  "('f, 'c) librato_env \<Rightarrow> ('f, 'c) Librato \<Rightarrow> 'f metric
     \<Rightarrow> (error + 'f Gauge list) \<times> ('f, 'c) Librato"
where
  "buildGauges E l m =
     (if Unix (mTime m) = 0 then (Inl (Error (''time was zero '' @ mName m)), l)
      else
        (let metricSource = metricSource_of E (mTags m) (Template l) in
         if metricSource = [] then
           (Inl (Error (''undeterminable Source type from Field, '' @ Template l)), l)
         else
           (case fields_loop E m metricSource (mFields m) [] of
              Inl err \<Rightarrow> (Inl err, l)
            | Inr gauges \<Rightarrow> (Inr gauges, log_line (Debugf_built_gauges gauges) l))))"

subsection \<open>Writing\<close>

text \<open>\<^verbatim>\<open>copy(dst, src)\<close> overwrites the first \<open>min (len dst) (len src)\<close> elements of \<open>dst\<close>.\<close>

definition go_copy :: "'a list \<Rightarrow> 'a list \<Rightarrow> 'a list" where
  "go_copy dst src = take (length dst) src @ drop (length src) dst"

text \<open>
  The rest of \<^verbatim>\<open>writeBatch\<close> once \<^verbatim>\<open>lmetrics.Gauges\<close> is filled (lines 125-174): marshal,
  build the request, fetch the secrets, post, read the status.
\<close>

definition post_gauges ::
  "('f, 'c) librato_env \<Rightarrow> ('f, 'c) Librato \<Rightarrow> 'f Gauge option list \<Rightarrow> result \<times> ('f, 'c) Librato"
where
  "post_gauges E l gauges =
     (case Marshal E gauges of
        Inl err \<Rightarrow> (Done (Some (Errorf_w ''unable to marshal Metrics: '' err)), l)
      | Inr metricsBytes \<Rightarrow>
          (let l1 = log_line (Debugf_request metricsBytes) l in
           case NewRequest E (APIUrl l1) of
             Some err \<Rightarrow> (Done (Some (Errorf_w ''unable to create http.Request: '' err)), l1)
           | None \<Rightarrow>
               (case APIUser l1 of
                  Inl err \<Rightarrow> (Done (Some (Errorf_w ''getting user failed: '' err)), l1)
                | Inr user \<Rightarrow>
                    (case APIToken l1 of
                       Inl err \<Rightarrow> (Done (Some (Errorf_w ''getting token failed: '' err)), l1)
                     | Inr token \<Rightarrow>
                         (let req = \<lparr>req_url = APIUrl l1, req_body = metricsBytes,
                                     req_content_type = ''application/json'',
                                     req_user = user, req_token = token\<rparr>
                          in case Do E (client l1) req of
                               (c, Inl err) \<Rightarrow>
                                 (Done (Some (Errorf_w ''error POSTing metrics: '' err)),
                                  log_line (Debugf_error_posting err) (l1\<lparr>client := c\<rparr>))
                             | (c, Inr resp) \<Rightarrow>
                                 (let l2 = l1\<lparr>client := c\<rparr> in
                                  if StatusCode resp \<noteq> 200 \<or> Debug l2 then
                                    (let htmlData = fst (Body resp);
                                         l3 = (case snd (Body resp) of
                                                 Some err \<Rightarrow>
                                                   log_line (Debugf_couldnt_get_response err) l2
                                               | None \<Rightarrow> l2)
                                     in if StatusCode resp \<noteq> 200 then
                                          (Done (Some (Error
                                             (''received bad status code, ''
                                              @ format_d (StatusCode resp)
                                              @ ''\<newline> '' @ htmlData))), l3)
                                        else (Done None, log_line (Debugf_response htmlData) l3))
                                  else (Done None, l2)))))))"

text \<open>
  \<^verbatim>\<open>writeBatch\<close>.  The indices are Go \<^verbatim>\<open>int\<close>s; \<^verbatim>\<open>make\<close> panics on a negative length and
  the slice expression \<^verbatim>\<open>tempGauges[start:end]\<close> panics unless
  \<open>0 \<le> start \<le> end \<le> cap\<close>, where the capacity of \<open>tempGauges\<close> is taken to be its
  length.  The sums stay far below \<open>2^63\<close> for the length of any slice, so they do not wrap.
\<close>

definition writeBatch ::
  "('f, 'c) librato_env \<Rightarrow> ('f, 'c) Librato \<Rightarrow> int \<Rightarrow> int \<Rightarrow> int \<Rightarrow> 'f Gauge list
     \<Rightarrow> result \<times> ('f, 'c) Librato"
where
  "writeBatch E l start sizeBatch metricCounter tempGauges =
     (let end0 = start + sizeBatch;
          end1 = (if end0 > metricCounter then metricCounter else end0);
          sizeBatch1 = (if end0 > metricCounter then end1 - start else sizeBatch)
      in if sizeBatch1 < 0 then (Panic ''makeslice: len out of range'', l)
         else if \<not> (0 \<le> start \<and> start \<le> end1 \<and> end1 \<le> int (length tempGauges)) then
           (Panic ''slice bounds out of range'', l)
         else
           post_gauges E l
             (go_copy (replicate (nat sizeBatch1) None)
                (map Some (take (nat (end1 - start)) (drop (nat start) tempGauges)))))"

text \<open>
  The loop \<^verbatim>\<open>for start := 0; start < metricCounter; start += sizeBatch\<close> of \<^verbatim>\<open>Write\<close>, with
  \<^verbatim>\<open>sizeBatch := 300\<close>.
\<close>

function batch_loop ::
  "('f, 'c) librato_env \<Rightarrow> int \<Rightarrow> int \<Rightarrow> 'f Gauge list \<Rightarrow> ('f, 'c) Librato
     \<Rightarrow> result \<times> ('f, 'c) Librato"
where
  "batch_loop E start metricCounter tempGauges l =
     (if start < metricCounter then
        (case writeBatch E l start 300 metricCounter tempGauges of
           (Done None, l') \<Rightarrow> batch_loop E (start + 300) metricCounter tempGauges l'
         | (Done (Some err), l') \<Rightarrow> (Done (Some err), l')
         | (Panic p, l') \<Rightarrow> (Panic p, l'))
      else (Done None, l))"
  by pat_completeness auto
termination
  by (relation "measure (\<lambda>(E, start, metricCounter, tempGauges, l). nat (metricCounter - start))")
    auto

declare batch_loop.simps [simp del]

text \<open>The loop \<^verbatim>\<open>for _, m := range metrics\<close> of \<^verbatim>\<open>Write\<close> and its inner loop.\<close>

fun append_gauges ::
  "'f Gauge list \<Rightarrow> 'f Gauge list \<times> ('f, 'c) Librato \<Rightarrow> 'f Gauge list \<times> ('f, 'c) Librato"
where
  "append_gauges [] (tempGauges, l) = (tempGauges, l)"
| "append_gauges (gauge # gauges) (tempGauges, l) =
     append_gauges gauges (tempGauges @ [gauge], log_line (Debugf_got_gauge gauge) l)"

fun metrics_loop ::
  "('f, 'c) librato_env \<Rightarrow> 'f metric list \<Rightarrow> 'f Gauge list \<times> ('f, 'c) Librato
     \<Rightarrow> 'f Gauge list \<times> ('f, 'c) Librato"
where
  "metrics_loop E [] (tempGauges, l) = (tempGauges, l)"
| "metrics_loop E (m # ms) (tempGauges, l) =
     (case buildGauges E l m of
        (Inr gauges, l') \<Rightarrow> metrics_loop E ms (append_gauges gauges (tempGauges, l'))
      | (Inl err, l') \<Rightarrow>
          metrics_loop E ms
            (tempGauges,
             log_line (Debugf_couldnt_build err) (log_line (Infof_unable_to_build (mName m)) l')))"

text \<open>Lines 86-88: an empty template is replaced by \<^verbatim>\<open>"host"\<close>.\<close>

definition default_template :: "('f, 'c) Librato \<Rightarrow> ('f, 'c) Librato" where
  "default_template l = (if Template l = [] then l\<lparr>Template := ''host''\<rparr> else l)"

definition Write ::
  "('f, 'c) librato_env \<Rightarrow> ('f, 'c) Librato \<Rightarrow> 'f metric list \<Rightarrow> result \<times> ('f, 'c) Librato"
where
  "Write E l metrics =
     (if length metrics = 0 then (Done None, l)
      else
        (case metrics_loop E metrics ([], default_template l) of
           (tempGauges, l2) \<Rightarrow> batch_loop E 0 (int (length tempGauges)) tempGauges l2))"

subsection \<open>Notions used in the statements\<close>

fun is_string :: "'f field_value \<Rightarrow> bool" where
  "is_string (VString s) = True"
| "is_string v = False"

fun of_model_type :: "'f field_value \<Rightarrow> bool" where
  "of_model_type (VOther r) = False"
| "of_model_type v = True"

text \<open>
  Consecutive sub-lists of at most \<open>n\<close> elements, and their delivery one after the other
  until one fails.
\<close>

function chunks :: "nat \<Rightarrow> 'a list \<Rightarrow> 'a list list" where
  "chunks n xs = (if n = 0 \<or> xs = [] then [] else take n xs # chunks n (drop n xs))"
  by pat_completeness auto
termination
  by (relation "measure (\<lambda>(n, xs). length xs)") auto

declare chunks.simps [simp del]

fun post_in_order ::
  "('f, 'c) librato_env \<Rightarrow> 'f Gauge list list \<Rightarrow> ('f, 'c) Librato \<Rightarrow> result \<times> ('f, 'c) Librato"
where
  "post_in_order E [] l = (Done None, l)"
| "post_in_order E (c # cs) l =
     (case post_gauges E l (map Some c) of
        (Done None, l') \<Rightarrow> post_in_order E cs l'
      | (r, l') \<Rightarrow> (r, l'))"

text \<open>
  Test doubles for the collaborators: the source is the value of the tag the template
  names, marshalling yields the number of gauges, and the service answers 200 to a fixed
  number of requests and 500 afterwards.
\<close>

definition tag_source :: "(string \<times> string) list \<Rightarrow> string \<Rightarrow> string" where
  "tag_source tags template = (case map_of tags template of Some v \<Rightarrow> v | None \<Rightarrow> [])"

fun quota_client :: "request list \<times> nat \<Rightarrow> request \<Rightarrow> (request list \<times> nat) \<times> (error + response)" where
  "quota_client (seen, 0) req =
     ((seen @ [req], 0), Inr \<lparr>StatusCode = 500, Body = (''quota exceeded'', None)\<rparr>)"
| "quota_client (seen, Suc n) req =
     ((seen @ [req], n), Inr \<lparr>StatusCode = 200, Body = (''ok'', None)\<rparr>)"

definition test_librato_env :: "(int, request list \<times> nat) librato_env" where
  "test_librato_env =
     \<lparr>float64_of_int64 = sint, float64_of_uint64 = uint, float64_zero = 0, float64_one = 1,
      metricSource_of = tag_source,
      Marshal = (\<lambda>gauges. Inr (decimal (length gauges))),
      NewRequest = (\<lambda>url. if url = [] then Some (Error ''empty url'') else None),
      Do = quota_client\<rparr>"

definition test_librato :: "nat \<Rightarrow> (int, request list \<times> nat) Librato" where
  "test_librato n =
     \<lparr>APIUser = Inr ''user'', APIToken = Inr ''token'', Debug = False, Template = [],
      APIUrl = ''https://metrics-api.librato.com/v1/metrics'', client = ([], n), Log = []\<rparr>"

definition test_gauge :: "int Gauge" where
  "test_gauge = \<lparr>Name = ''cpu.usage'', Value = 1, Source = ''a'', MeasureTime = 5\<rparr>"

definition test_request :: "string \<Rightarrow> request" where
  "test_request body =
     \<lparr>req_url = ''https://metrics-api.librato.com/v1/metrics'', req_body = body,
      req_content_type = ''application/json'', req_user = ''user'', req_token = ''token''\<rparr>"

definition test_metric :: "int metric" where
  "test_metric =
     \<lparr>mName = ''cpu'', mTags = [(''host'', ''a b'')],
      mFields = [(''usage'', VFloat64 15), (''state'', VString ''idle''), (''value'', VBool True)],
      mTime = \<lparr>unix_sec = 5, nsec = 0\<rparr>\<rparr>"

section \<open>Properties of the shim's output path\<close>

subsection \<open>The call log\<close>

lemma dispositions_on_append:
  "dispositions_on m (cs @ ds) = dispositions_on m cs @ dispositions_on m ds"
  by (induction m cs rule: dispositions_on.induct) auto

lemma serializations_of_append:
  "serializations_of m (cs @ ds) = serializations_of m cs + serializations_of m ds"
  by (induction m cs rule: serializations_of.induct) auto

lemma written_append: "written (cs @ ds) = written cs @ written ds"
  by (induction cs rule: written.induct) auto

lemma sent_append: "sent (xs @ ys) = sent xs @ sent ys"
  by (induction xs rule: sent.induct) auto

lemma no_calls_on:
  "\<forall>c \<in> set cs. \<forall>m'. call_metric c = Some m' \<longrightarrow> m' \<in> A \<Longrightarrow> m \<notin> A \<Longrightarrow>
   dispositions_on m cs = [] \<and> serializations_of m cs = 0"
proof (induction cs)
  case Nil
  then show ?case by simp
next
  case (Cons c cs)
  then show ?case by (cases c) auto
qed

subsection \<open>The loop, event by event\<close>

text \<open>
  While the loop has not returned it is waiting at the receive, so a run over \<open>pre @ rest\<close>
  is the run over \<open>rest\<close> from the state in which the run over \<open>pre\<close> waits.
\<close>

lemma receive_loop_append:
  "receive_loop E pre False s = (Blocked, s1) \<Longrightarrow>
   receive_loop E (pre @ rest) closed s = receive_loop E rest closed s1"
proof (induction E pre "False" s rule: receive_loop.induct)
  case (1 E s)
  then show ?case by simp
next
  case (2 E evs s)
  then show ?case by simp
next
  case (3 E m evs s)
  then show ?case
    by (auto simp: Let_def split: sum.splits prod.splits option.splits)
qed

text \<open>The log only grows, and only with calls about metrics that were sent.\<close>

lemma receive_loop_calls:
  "receive_loop E evs closed s = (r, s') \<Longrightarrow>
   \<exists>cs. calls s' = calls s @ cs \<and>
        (\<forall>c \<in> set cs. \<forall>m. call_metric c = Some m \<longrightarrow> m \<in> set (sent evs))"
proof (induction evs arbitrary: s)
  case Nil
  then show ?case by auto
next
  case (Cons ev evs)
  show ?case
  proof (cases ev)
    case Signal
    with Cons.prems have "receive_loop E evs closed (watchForShutdown s) = (r, s')" by simp
    from Cons.IH[OF this] Signal show ?thesis by (auto simp: watchForShutdown_def)
  next
    case (Send m)
    show ?thesis
    proof (cases "Serialize E m")
      case (Inl e)
      with Cons.prems Send show ?thesis by (auto simp: record_call_def)
    next
      case (Inr b)
      obtain w eo where f: "Fprint E (stdout s) b = (w, eo)"
        by (cases "Fprint E (stdout s) b")
      show ?thesis
      proof (cases eo)
        case None
        let ?s2 = "record_call (CDispose m Accept)
                     (record_call (CFprint b None) ((record_call (CSerialize m) s)\<lparr>stdout := w\<rparr>))"
        from Cons.prems Send Inr f None have "receive_loop E evs closed ?s2 = (r, s')"
          by (simp add: record_call_def)
        from Cons.IH[OF this]
        obtain cs where "calls s' = calls ?s2 @ cs"
          "\<forall>c \<in> set cs. \<forall>m. call_metric c = Some m \<longrightarrow> m \<in> set (sent evs)"
          by auto
        then show ?thesis using Send by (auto simp: record_call_def)
      next
        case (Some e)
        with Cons.prems Send Inr f show ?thesis by (auto simp: record_call_def)
      qed
    qed
  qed
qed

lemma receive_loop_untouched:
  assumes "receive_loop E evs closed s = (r, s')" "m \<notin> set (sent evs)"
  shows "dispositions_on m (calls s') = dispositions_on m (calls s)"
    and "serializations_of m (calls s') = serializations_of m (calls s)"
proof -
  from receive_loop_calls[OF assms(1)] obtain cs where
    cs: "calls s' = calls s @ cs"
    "\<forall>c \<in> set cs. \<forall>m. call_metric c = Some m \<longrightarrow> m \<in> set (sent evs)" by blast
  from no_calls_on[OF cs(2) assms(2)]
  show "dispositions_on m (calls s') = dispositions_on m (calls s)"
    and "serializations_of m (calls s') = serializations_of m (calls s)"
    by (simp_all add: cs(1) dispositions_on_append serializations_of_append)
qed

lemma wpm_Blocked:
  "writeProcessedMetrics E evs closed s = (Blocked, s1) \<Longrightarrow>
   Init E = None \<and> receive_loop E evs closed s = (Blocked, s1)"
  by (auto simp: writeProcessedMetrics_def split: option.splits)

lemma wpm_append:
  assumes "writeProcessedMetrics E pre False s = (Blocked, s1)"
  shows "writeProcessedMetrics E (pre @ rest) closed s = receive_loop E rest closed s1"
  using wpm_Blocked[OF assms] receive_loop_append[of E pre s s1 rest closed]
  by (simp add: writeProcessedMetrics_def)

lemma receive_loop_nil_iff:
  "fst (receive_loop E evs closed s) = Returned None
     \<longleftrightarrow> closed \<and> deliverable E (sent evs) (stdout s)"
proof (induction evs arbitrary: s)
  case Nil
  then show ?case by simp
next
  case (Cons ev evs)
  show ?case
  proof (cases ev)
    case Signal
    then show ?thesis using Cons.IH[of "watchForShutdown s"] by (simp add: watchForShutdown_def)
  next
    case (Send m)
    then show ?thesis
      by (auto simp: Cons.IH record_call_def split: sum.splits option.splits prod.splits)
  qed
qed

lemma receive_loop_drains:
  "receive_loop E evs closed s = (Returned None, s') \<Longrightarrow>
   written (calls s') = written (calls s) @ map (payload E) (sent evs)
   \<and> (cancelled s' \<longleftrightarrow> cancelled s \<or> Signal \<in> set evs)"
proof (induction evs arbitrary: s)
  case Nil
  then show ?case by (simp split: if_splits)
next
  case (Cons ev evs)
  show ?case
  proof (cases ev)
    case Signal
    with Cons.prems have "receive_loop E evs closed (watchForShutdown s) = (Returned None, s')"
      by simp
    from Cons.IH[OF this] Signal show ?thesis by (auto simp: watchForShutdown_def)
  next
    case (Send m)
    show ?thesis
    proof (cases "Serialize E m")
      case (Inl e)
      with Cons.prems Send show ?thesis by (cases e) (simp add: record_call_def)
    next
      case (Inr b)
      obtain w eo where f: "Fprint E (stdout s) b = (w, eo)"
        by (cases "Fprint E (stdout s) b")
      show ?thesis
      proof (cases eo)
        case None
        let ?s2 = "record_call (CDispose m Accept)
                     (record_call (CFprint b None) ((record_call (CSerialize m) s)\<lparr>stdout := w\<rparr>))"
        from Cons.prems Send Inr f None
        have "receive_loop E evs closed ?s2 = (Returned None, s')"
          by (simp add: record_call_def)
        from Cons.IH[OF this] Send Inr show ?thesis
          by (simp add: record_call_def written_append payload_def)
      next
        case (Some e)
        with Cons.prems Send Inr f show ?thesis by (cases e) (simp add: record_call_def)
      qed
    qed
  qed
qed

lemmas test_simps = writeProcessedMetrics_def test_env_def test_shim_def line_serializer_def
  record_call_def watchForShutdown_def

subsection \<open>Delivery is accept once written\<close>

text \<open>
  Claim C1.  A metric that is received from the metric channel (the loop is waiting at the
  receive when it arrives), whose serialization succeeds and whose write to the output
  stream succeeds, gets \<open>Accept\<close> from \<open>writeProcessedMetrics\<close> and no other disposition.
  Metrics are objects: the metric in question is sent once on the channel.
\<close>

theorem accept_once_written:
  assumes "writeProcessedMetrics E pre False s = (Blocked, s1)"
    and "Serialize E m = Inr b"
    and "Fprint E (stdout s1) b = (w, None)"
    and "m \<notin> set (sent pre)" and "m \<notin> set (sent post)"
    and "dispositions_on m (calls s) = []"
  shows "dispositions_on m (calls (snd (writeProcessedMetrics E (pre @ Send m # post) closed s)))
         = [Accept]"
proof -
  let ?s2 = "s1\<lparr>stdout := w, calls := calls s1 @ [CSerialize m, CFprint b None, CDispose m Accept]\<rparr>"
  have run: "writeProcessedMetrics E (pre @ Send m # post) closed s = receive_loop E post closed ?s2"
    using assms(2,3) by (simp add: wpm_append[OF assms(1)] record_call_def)
  have pre: "dispositions_on m (calls s1) = []"
    using receive_loop_untouched(1)[of E pre False s Blocked s1 m] wpm_Blocked[OF assms(1)] assms(4,6)
    by simp
  obtain r s' where rs: "receive_loop E post closed ?s2 = (r, s')"
    by (cases "receive_loop E post closed ?s2")
  from receive_loop_untouched(1)[OF rs assms(5)] pre
  have "dispositions_on m (calls s') = [Accept]"
    by (simp add: dispositions_on_append)
  with run rs show ?thesis by simp
qed

theorem accept_once_written_witness:
  "writeProcessedMetrics test_env [Send ''mem'', Signal] False (test_shim 5) =
     (Blocked, \<lparr>stdout = ([''mem\<newline>''], 4), cancelled = True,
                calls = [CSerialize ''mem'', CFprint ''mem\<newline>'' None, CDispose ''mem'' Accept]\<rparr>)
   \<and> Serialize test_env ''cpu'' = Inr ''cpu\<newline>''
   \<and> Fprint test_env ([''mem\<newline>''], 4) ''cpu\<newline>'' = (([''mem\<newline>'', ''cpu\<newline>''], 3), None)
   \<and> dispositions_on ''cpu''
        (calls (snd (writeProcessedMetrics test_env
                       ([Send ''mem'', Signal] @ Send ''cpu'' # [Send ''disk'']) True (test_shim 5))))
      = [Accept]"
proof -
  let ?s1 = "\<lparr>stdout = ([''mem\<newline>''], 4::nat), cancelled = True,
                calls = [CSerialize ''mem'', CFprint ''mem\<newline>'' None, CDispose ''mem'' Accept]\<rparr>"
  have h1: "writeProcessedMetrics test_env [Send ''mem'', Signal] False (test_shim 5) = (Blocked, ?s1)"
    by (simp add: test_simps numeral_nat)
  have h2: "Serialize test_env ''cpu'' = Inr ''cpu\<newline>''"
    by (simp add: test_simps)
  have h3: "Fprint test_env (stdout ?s1) ''cpu\<newline>'' = (([''mem\<newline>'', ''cpu\<newline>''], 3), None)"
    by (simp add: test_simps numeral_nat)
  have h4: "''cpu'' \<notin> set (sent [Send ''mem'', Signal])" by simp
  have h5: "''cpu'' \<notin> set (sent [Send ''disk''])" by simp
  have h6: "dispositions_on ''cpu'' (calls (test_shim 5)) = []" by (simp add: test_simps)
  show ?thesis
    using accept_once_written[OF h1 h2 h3 h4 h5 h6, of True] h1 h2 h3 by simp
qed

subsection \<open>A serialization failure\<close>

text \<open>
  Claim C2, as the code has it.  When the serialization of a received metric fails, the
  function calls \<open>Reject\<close> on that metric and returns the error
  \<open>failed to serialize metric: ...\<close> at once: the result and the final state are the
  same whatever follows on the channel, so no later metric is processed.
\<close>

theorem serialize_failure_returns:
  assumes "writeProcessedMetrics E pre False s = (Blocked, s1)"
    and "Serialize E m = Inl err"
  shows "writeProcessedMetrics E (pre @ Send m # post) closed s =
           (Returned (Some (Errorf_w ''failed to serialize metric: '' err)),
            s1\<lparr>calls := calls s1 @ [CSerialize m, CDispose m Reject]\<rparr>)"
  using assms(2) by (simp add: wpm_append[OF assms(1)] record_call_def)

theorem serialize_failure_returns_witness:
  "writeProcessedMetrics test_env [Send ''mem''] False (test_shim 5) =
     (Blocked, \<lparr>stdout = ([''mem\<newline>''], 4), cancelled = False,
                calls = [CSerialize ''mem'', CFprint ''mem\<newline>'' None, CDispose ''mem'' Accept]\<rparr>)
   \<and> Serialize test_env [] = Inl (Error ''no fields'')
   \<and> writeProcessedMetrics test_env ([Send ''mem''] @ Send [] # [Send ''cpu'']) True (test_shim 5) =
       (Returned (Some (Error ''failed to serialize metric: no fields'')),
        \<lparr>stdout = ([''mem\<newline>''], 4), cancelled = False,
          calls = [CSerialize ''mem'', CFprint ''mem\<newline>'' None, CDispose ''mem'' Accept,
                   CSerialize [], CDispose [] Reject]\<rparr>)"
proof -
  let ?s1 = "\<lparr>stdout = ([''mem\<newline>''], 4::nat), cancelled = False,
                calls = [CSerialize ''mem'', CFprint ''mem\<newline>'' None, CDispose ''mem'' Accept]\<rparr>"
  have h1: "writeProcessedMetrics test_env [Send ''mem''] False (test_shim 5) = (Blocked, ?s1)"
    by (simp add: test_simps numeral_nat)
  have h2: "Serialize test_env [] = Inl (Error ''no fields'')"
    by (simp add: test_simps)
  show ?thesis
    using serialize_failure_returns[OF h1 h2, of "[Send ''cpu'']" True] h1 h2 by simp
qed

text \<open>
  The claim as the specification words it (the unit continues with the next metric) fails
  on a channel holding a metric that cannot be serialized followed by a good one: the
  function returns the error and the good metric is never serialized.
\<close>

theorem serialize_failure_counterexample:
  "Serialize test_env [] = Inl (Error ''no fields'')
   \<and> writeProcessedMetrics test_env [Send [], Send ''cpu''] True (test_shim 5) =
       (Returned (Some (Error ''failed to serialize metric: no fields'')),
        \<lparr>stdout = ([], 5), cancelled = False, calls = [CSerialize [], CDispose [] Reject]\<rparr>)
   \<and> serializations_of ''cpu''
        (calls (snd (writeProcessedMetrics test_env [Send [], Send ''cpu''] True (test_shim 5)))) = 0"
  by (simp add: test_simps)

text \<open>
  Claim C3.  A metric whose serialization fails is rejected before the function returns:
  the function returns an error, \<open>Reject\<close> is the one disposition the metric has got, the
  call follows the failed \<open>Serialize\<close> call directly and ends the log, and the metric was
  serialized once.
\<close>

theorem serialize_failure_rejected_once:
  assumes "writeProcessedMetrics E pre False s = (Blocked, s1)"
    and "Serialize E m = Inl err"
    and "m \<notin> set (sent pre)"
    and "dispositions_on m (calls s) = []" and "serializations_of m (calls s) = 0"
  shows "\<exists>e s'. writeProcessedMetrics E (pre @ Send m # post) closed s = (Returned (Some e), s')
           \<and> dispositions_on m (calls s') = [Reject]
           \<and> Reject \<in> {Drop, Reject}
           \<and> serializations_of m (calls s') = 1
           \<and> (\<exists>cs. calls s' = cs @ [CSerialize m, CDispose m Reject])"
proof -
  have pre: "dispositions_on m (calls s1) = []" "serializations_of m (calls s1) = 0"
    using receive_loop_untouched[of E pre False s Blocked s1 m] wpm_Blocked[OF assms(1)] assms(3,4,5)
    by simp_all
  show ?thesis
    using assms(2) pre
    by (simp add: wpm_append[OF assms(1)] record_call_def dispositions_on_append
        serializations_of_append)
qed

theorem serialize_failure_rejected_once_witness:
  "writeProcessedMetrics test_env [Signal, Send ''mem''] False (test_shim 2) =
     (Blocked, \<lparr>stdout = ([''mem\<newline>''], 1), cancelled = True,
                calls = [CSerialize ''mem'', CFprint ''mem\<newline>'' None, CDispose ''mem'' Accept]\<rparr>)
   \<and> Serialize test_env [] = Inl (Error ''no fields'')
   \<and> (\<exists>e s'. writeProcessedMetrics test_env ([Signal, Send ''mem''] @ Send [] # [Send []]) False
                 (test_shim 2) = (Returned (Some e), s')
           \<and> dispositions_on [] (calls s') = [Reject]
           \<and> serializations_of [] (calls s') = 1)"
proof -
  let ?s1 = "\<lparr>stdout = ([''mem\<newline>''], 1::nat), cancelled = True,
                calls = [CSerialize ''mem'', CFprint ''mem\<newline>'' None, CDispose ''mem'' Accept]\<rparr>"
  have h1: "writeProcessedMetrics test_env [Signal, Send ''mem''] False (test_shim 2) = (Blocked, ?s1)"
    by (simp add: test_simps numeral_nat)
  have h2: "Serialize test_env [] = Inl (Error ''no fields'')"
    by (simp add: test_simps)
  have h3: "[] \<notin> set (sent [Signal, Send ''mem''])" by simp
  have h4: "dispositions_on [] (calls (test_shim 2)) = []" by (simp add: test_simps)
  have h5: "serializations_of [] (calls (test_shim 2)) = 0" by (simp add: test_simps)
  show ?thesis
    using serialize_failure_rejected_once[OF h1 h2 h3 h4 h5, of "[Send []]" False] h1 h2
    by blast
qed

subsection \<open>A write failure\<close>

text \<open>
  Claim C4.  When the write of a serialized record fails, the function returns the error
  \<open>failed to write metric: ...\<close>, which is not nil, and the final state is the one right
  after the failed write, whatever follows on the channel: later metrics are not
  processed.
\<close>

theorem write_failure_fatal:
  assumes "writeProcessedMetrics E pre False s = (Blocked, s1)"
    and "Serialize E m = Inr b"
    and "Fprint E (stdout s1) b = (w, Some err)"
  shows "writeProcessedMetrics E (pre @ Send m # post) closed s =
           (Returned (Some (Errorf_w ''failed to write metric: '' err)),
            s1\<lparr>stdout := w, calls := calls s1 @ [CSerialize m, CFprint b (Some err), CDispose m Drop]\<rparr>)"
  using assms(2,3) by (simp add: wpm_append[OF assms(1)] record_call_def)

theorem write_failure_fatal_witness:
  "writeProcessedMetrics test_env [Send ''mem''] False (test_shim 1) =
     (Blocked, \<lparr>stdout = ([''mem\<newline>''], 0), cancelled = False,
                calls = [CSerialize ''mem'', CFprint ''mem\<newline>'' None, CDispose ''mem'' Accept]\<rparr>)
   \<and> Serialize test_env ''cpu'' = Inr ''cpu\<newline>''
   \<and> Fprint test_env ([''mem\<newline>''], 0) ''cpu\<newline>'' = (([''mem\<newline>''], 0), Some (Error ''broken pipe''))
   \<and> writeProcessedMetrics test_env ([Send ''mem''] @ Send ''cpu'' # [Send ''disk'']) True (test_shim 1) =
       (Returned (Some (Error ''failed to write metric: broken pipe'')),
        \<lparr>stdout = ([''mem\<newline>''], 0), cancelled = False,
          calls = [CSerialize ''mem'', CFprint ''mem\<newline>'' None, CDispose ''mem'' Accept,
                   CSerialize ''cpu'', CFprint ''cpu\<newline>'' (Some (Error ''broken pipe'')),
                   CDispose ''cpu'' Drop]\<rparr>)"
proof -
  let ?s1 = "\<lparr>stdout = ([''mem\<newline>''], 0::nat), cancelled = False,
                calls = [CSerialize ''mem'', CFprint ''mem\<newline>'' None, CDispose ''mem'' Accept]\<rparr>"
  have h1: "writeProcessedMetrics test_env [Send ''mem''] False (test_shim 1) = (Blocked, ?s1)"
    by (simp add: test_simps)
  have h2: "Serialize test_env ''cpu'' = Inr ''cpu\<newline>''"
    by (simp add: test_simps)
  have h3: "Fprint test_env (stdout ?s1) ''cpu\<newline>'' = (([''mem\<newline>''], 0), Some (Error ''broken pipe''))"
    by (simp add: test_simps)
  show ?thesis
    using write_failure_fatal[OF h1 h2 h3, of "[Send ''disk'']" True] h1 h2 h3 by simp
qed

text \<open>
  Claim C5, as the code has it.  A metric whose serialized record could not be written
  gets the disposition \<open>Drop\<close> and no other.
\<close>

theorem write_failure_dropped:
  assumes "writeProcessedMetrics E pre False s = (Blocked, s1)"
    and "Serialize E m = Inr b"
    and "Fprint E (stdout s1) b = (w, Some err)"
    and "m \<notin> set (sent pre)" and "dispositions_on m (calls s) = []"
  shows "dispositions_on m (calls (snd (writeProcessedMetrics E (pre @ Send m # post) closed s)))
         = [Drop]"
proof -
  have pre: "dispositions_on m (calls s1) = []"
    using receive_loop_untouched(1)[of E pre False s Blocked s1 m] wpm_Blocked[OF assms(1)] assms(4,5)
    by simp
  show ?thesis
    using assms(2,3) pre
    by (simp add: wpm_append[OF assms(1)] record_call_def dispositions_on_append)
qed

theorem write_failure_dropped_witness:
  "writeProcessedMetrics test_env [Send ''mem'', Send ''disk''] False (test_shim 2) =
     (Blocked, \<lparr>stdout = ([''mem\<newline>'', ''disk\<newline>''], 0), cancelled = False,
                calls = [CSerialize ''mem'', CFprint ''mem\<newline>'' None, CDispose ''mem'' Accept,
                         CSerialize ''disk'', CFprint ''disk\<newline>'' None, CDispose ''disk'' Accept]\<rparr>)
   \<and> Serialize test_env ''cpu'' = Inr ''cpu\<newline>''
   \<and> snd (Fprint test_env ([''mem\<newline>'', ''disk\<newline>''], 0) ''cpu\<newline>'') = Some (Error ''broken pipe'')
   \<and> dispositions_on ''cpu''
        (calls (snd (writeProcessedMetrics test_env
                       ([Send ''mem'', Send ''disk''] @ Send ''cpu'' # []) True (test_shim 2))))
      = [Drop]"
proof -
  let ?s1 = "\<lparr>stdout = ([''mem\<newline>'', ''disk\<newline>''], 0::nat), cancelled = False,
                calls = [CSerialize ''mem'', CFprint ''mem\<newline>'' None, CDispose ''mem'' Accept,
                         CSerialize ''disk'', CFprint ''disk\<newline>'' None, CDispose ''disk'' Accept]\<rparr>"
  have h1: "writeProcessedMetrics test_env [Send ''mem'', Send ''disk''] False (test_shim 2) = (Blocked, ?s1)"
    by (simp add: test_simps numeral_nat)
  have h2: "Serialize test_env ''cpu'' = Inr ''cpu\<newline>''"
    by (simp add: test_simps)
  have h3: "Fprint test_env (stdout ?s1) ''cpu\<newline>'' =
              (([''mem\<newline>'', ''disk\<newline>''], 0), Some (Error ''broken pipe''))"
    by (simp add: test_simps)
  have h4: "''cpu'' \<notin> set (sent [Send ''mem'', Send ''disk''])" by simp
  have h5: "dispositions_on ''cpu'' (calls (test_shim 2)) = []" by (simp add: test_simps)
  show ?thesis
    using write_failure_dropped[OF h1 h2 h3 h4 h5, of "[]" True] h1 h2 h3 by simp
qed

text \<open>
  The claim as the specification words it (the disposition is \<open>Reject\<close>) fails on a single
  metric written to a broken pipe: the one disposition it gets is \<open>Drop\<close>.
\<close>

theorem write_failure_counterexample:
  "Serialize test_env ''cpu'' = Inr ''cpu\<newline>''
   \<and> snd (Fprint test_env (stdout (test_shim 0)) ''cpu\<newline>'') = Some (Error ''broken pipe'')
   \<and> dispositions_on ''cpu''
        (calls (snd (writeProcessedMetrics test_env [Send ''cpu''] True (test_shim 0)))) = [Drop]
   \<and> Drop \<noteq> Reject"
  by (simp add: test_simps)

subsection \<open>Draining the channel\<close>

text \<open>
  Claim C6, as the code has it.  \<open>writeProcessedMetrics\<close> returns nil exactly when the
  metric channel is closed, the serializer could be created, and every metric sent before
  the close is serialized and written successfully.  When it returns nil, the records
  written to the output stream are the serialized metrics in arrival order, those that
  arrive after a shutdown signal has cancelled the context included.
\<close>

theorem nil_iff_closed_and_drained:
  "(fst (writeProcessedMetrics E evs closed s) = Returned None
      \<longleftrightarrow> closed \<and> Init E = None \<and> deliverable E (sent evs) (stdout s))
   \<and> (\<forall>s'. writeProcessedMetrics E evs closed s = (Returned None, s') \<longrightarrow>
         written (calls s') = written (calls s) @ map (payload E) (sent evs)
         \<and> (cancelled s' \<longleftrightarrow> cancelled s \<or> Signal \<in> set evs))"
proof (cases "Init E")
  case None
  then have eq: "writeProcessedMetrics E evs closed s = receive_loop E evs closed s"
    by (simp add: writeProcessedMetrics_def)
  show ?thesis
    unfolding eq using None receive_loop_nil_iff[of E evs closed s]
      receive_loop_drains[of E evs closed s]
    by blast
next
  case (Some e)
  then show ?thesis by (cases e) (simp add: writeProcessedMetrics_def)
qed

theorem nil_iff_closed_and_drained_witness:
  "writeProcessedMetrics test_env [Send ''mem'', Signal, Send ''cpu'', Send ''disk''] True (test_shim 3) =
     (Returned None,
      \<lparr>stdout = ([''mem\<newline>'', ''cpu\<newline>'', ''disk\<newline>''], 0), cancelled = True,
        calls = [CSerialize ''mem'', CFprint ''mem\<newline>'' None, CDispose ''mem'' Accept,
                 CSerialize ''cpu'', CFprint ''cpu\<newline>'' None, CDispose ''cpu'' Accept,
                 CSerialize ''disk'', CFprint ''disk\<newline>'' None, CDispose ''disk'' Accept]\<rparr>)
   \<and> deliverable test_env (sent [Send ''mem'', Signal, Send ''cpu'', Send ''disk'']) (stdout (test_shim 3))
   \<and> written [CSerialize ''mem'', CFprint ''mem\<newline>'' None, CDispose ''mem'' Accept,
               CSerialize ''cpu'', CFprint ''cpu\<newline>'' None, CDispose ''cpu'' Accept,
               CSerialize ''disk'', CFprint ''disk\<newline>'' None, CDispose ''disk'' Accept]
      = map (payload test_env) [''mem'', ''cpu'', ''disk'']"
proof -
  let ?evs = "[Send ''mem'', Signal, Send ''cpu'', Send ''disk'']"
  let ?s' = "\<lparr>stdout = ([''mem\<newline>'', ''cpu\<newline>'', ''disk\<newline>''], 0::nat), cancelled = True,
        calls = [CSerialize ''mem'', CFprint ''mem\<newline>'' None, CDispose ''mem'' Accept,
                 CSerialize ''cpu'', CFprint ''cpu\<newline>'' None, CDispose ''cpu'' Accept,
                 CSerialize ''disk'', CFprint ''disk\<newline>'' None, CDispose ''disk'' Accept]\<rparr>"
  have run: "writeProcessedMetrics test_env ?evs True (test_shim 3) = (Returned None, ?s')"
    by (simp add: test_simps numeral_nat)
  have "deliverable test_env (sent ?evs) (stdout (test_shim 3))"
    using nil_iff_closed_and_drained[of test_env ?evs True "test_shim 3"] run by simp
  moreover have "written (calls ?s') = written (calls (test_shim 3)) @ map (payload test_env) (sent ?evs)"
    using nil_iff_closed_and_drained[of test_env ?evs True "test_shim 3"] run by blast
  ultimately show ?thesis using run by (simp add: test_shim_def)
qed

text \<open>
  Without the proviso the claim fails: on a closed channel whose first metric cannot be
  serialized the function does not return nil, and neither that metric nor the one sent
  after it is written.
\<close>

theorem closed_not_nil_counterexample:
  "fst (writeProcessedMetrics test_env [Send [], Signal, Send ''cpu''] True (test_shim 5))
     \<noteq> Returned None
   \<and> sent [Send [], Signal, Send ''cpu''] = [[], ''cpu'']
   \<and> written (calls (snd (writeProcessedMetrics test_env [Send [], Signal, Send ''cpu''] True
                            (test_shim 5)))) = []"
  by (simp add: test_simps)

section \<open>Properties of the choice of the unit\<close>

text \<open>
  Claim C8.  \<open>Run\<close> calls one of \<open>RunInput\<close>, \<open>RunProcessor\<close>, \<open>RunOutput\<close>: the first
  whose plugin is set, in this order, and none when no plugin is set.  It returns an error
  exactly when no plugin is set or the method it called returned an error.
\<close>

theorem Run_one_unit_by_priority:
  "(case Run R s poll st of (r, started, st') \<Rightarrow>
      started = (if Input s \<noteq> None then [CallRunInput]
             else if Processor s \<noteq> None then [CallRunProcessor]
             else if Output s \<noteq> None then [CallRunOutput] else [])
      \<and> (returns_error r \<longleftrightarrow>
           (Input s = None \<and> Processor s = None \<and> Output s = None)
           \<or> (\<exists>i. Input s = Some i \<and> returns_error (fst (RunInput R i poll st)))
           \<or> (\<exists>p. Input s = None \<and> Processor s = Some p
                    \<and> returns_error (fst (RunProcessor R p st)))
           \<or> (\<exists>out. Input s = None \<and> Processor s = None \<and> Output s = Some out
                    \<and> returns_error (fst (RunOutput R out st)))))"
proof -
  have w: "returns_error (wrap_unit_error p r) = returns_error r" for p r
    by (cases "(p, r)" rule: wrap_unit_error.cases) auto
  show ?thesis
    by (auto simp: Run_def w split: option.splits prod.splits)
qed

theorem Run_one_unit_by_priority_witness:
  "Run test_run_env \<lparr>Input = None, Processor = Some (Returned None),
                     Output = Some (Returned (Some (Error ''down'')))\<rparr> 10 0
     = (Returned None, [CallRunProcessor], 1)
   \<and> \<not> returns_error (fst (RunProcessor test_run_env (Returned None) 0))"
proof -
  let ?s = "\<lparr>Input = None, Processor = Some (Returned None),
             Output = Some (Returned (Some (Error ''down'')))\<rparr> :: (outcome, outcome, outcome) shim_plugins"
  have run: "Run test_run_env ?s 10 0 = (Returned None, [CallRunProcessor], 1)"
    by (simp add: Run_def test_run_env_def)
  from Run_one_unit_by_priority[where R = test_run_env and s = ?s and poll = 10 and st = 0]
  have "\<not> returns_error (fst (RunProcessor test_run_env (Returned None) 0))"
    unfolding run by simp
  with run show ?thesis by simp
qed

section \<open>Properties of the Librato output\<close>

subsection \<open>Chunks and the batch loop\<close>

lemma chunks_concat: "concat (chunks n xs) = (if n = 0 then [] else xs)"
proof (induction n xs rule: chunks.induct)
  case (1 n xs)
  show ?case
  proof (cases "n = 0 \<or> xs = []")
    case True
    then show ?thesis by (subst chunks.simps) auto
  next
    case False
    with 1 show ?thesis by (subst chunks.simps) simp
  qed
qed

lemma chunks_bounded: "c \<in> set (chunks n xs) \<Longrightarrow> c \<noteq> [] \<and> length c \<le> n"
proof (induction n xs rule: chunks.induct)
  case (1 n xs)
  show ?case
  proof (cases "n = 0 \<or> xs = []")
    case True
    with 1(2) show ?thesis by (subst (asm) chunks.simps) simp
  next
    case False
    from 1(2) have "c = take n xs \<or> c \<in> set (chunks n (drop n xs))"
      by (subst (asm) chunks.simps) (use False in auto)
    then show ?thesis
    proof
      assume "c = take n xs"
      with False show ?thesis by simp
    next
      assume "c \<in> set (chunks n (drop n xs))"
      with 1(1) False show ?thesis by blast
    qed
  qed
qed

lemma go_copy_full: "go_copy (replicate (length xs) None) (map Some xs) = map Some xs"
  by (simp add: go_copy_def)

lemma writeBatch_in_range:
  assumes "0 \<le> start" "start < int (length gs)"
  shows "writeBatch E l start 300 (int (length gs)) gs =
           post_gauges E l (map Some (take 300 (drop (nat start) gs)))"
proof -
  let ?sub = "take 300 (drop (nat start) gs)"
  let ?end0 = "start + 300"
  let ?end1 = "if ?end0 > int (length gs) then int (length gs) else ?end0"
  let ?size1 = "if ?end0 > int (length gs) then ?end1 - start else 300"
  have n: "nat (?end1 - start) = length ?sub" "nat ?size1 = length ?sub"
    using assms by (auto simp: min_def)
  have sub: "take (nat (?end1 - start)) (drop (nat start) gs) = ?sub"
    using assms by auto
  have ok: "\<not> ?size1 < 0" "0 \<le> start \<and> start \<le> ?end1 \<and> ?end1 \<le> int (length gs)"
    using assms by auto
  show ?thesis
    unfolding writeBatch_def Let_def
    using ok n sub go_copy_full[of ?sub] by (simp only: if_False if_True not_False_eq_True simp_thms)
qed

lemma batch_loop_chunks:
  "0 \<le> start \<Longrightarrow>
   batch_loop E start (int (length gs)) gs l = post_in_order E (chunks 300 (drop (nat start) gs)) l"
proof (induction E start "int (length gs)" gs l rule: batch_loop.induct)
  case (1 E start gs l)
  show ?case
  proof (cases "start < int (length gs)")
    case False
    then have "drop (nat start) gs = []" by simp
    with False show ?thesis
      by (subst batch_loop.simps, subst chunks.simps) simp
  next
    case True
    let ?c = "take 300 (drop (nat start) gs)"
    have ne: "drop (nat start) gs \<noteq> []" using True 1(2) by simp
    have ch: "chunks 300 (drop (nat start) gs) = ?c # chunks 300 (drop (nat (start + 300)) gs)"
      using ne 1(2) by (subst chunks.simps) (simp add: nat_add_distrib add.commute)
    have wb: "writeBatch E l start 300 (int (length gs)) gs = post_gauges E l (map Some ?c)"
      using writeBatch_in_range[OF 1(2) True] .
    obtain r l' where p: "post_gauges E l (map Some ?c) = (r, l')"
      by (cases "post_gauges E l (map Some ?c)")
    show ?thesis
    proof (cases r)
      case (Done eo)
      show ?thesis
      proof (cases eo)
        case None
        have w: "(Done None, l') = writeBatch E l start 300 (int (length gs)) gs"
          using wb p Done None by simp
        have "batch_loop E (start + 300) (int (length gs)) gs l' =
              post_in_order E (chunks 300 (drop (nat (start + 300)) gs)) l'"
          using 1(1)[OF True w refl refl] 1(2) by simp
        then show ?thesis
          using True wb p Done None ch by (subst batch_loop.simps) simp
      next
        case (Some e)
        then show ?thesis
          using True wb p Done ch by (subst batch_loop.simps) simp
      qed
    next
      case (Panic s)
      then show ?thesis
        using True wb p ch by (subst batch_loop.simps) simp
    qed
  qed
qed

lemma post_in_order_fails:
  "post_in_order E pre l = (Done None, l1) \<Longrightarrow>
   post_gauges E l1 (map Some c) = (Done (Some err), l') \<Longrightarrow>
   post_in_order E (pre @ c # post) l = (Done (Some err), l')"
proof (induction pre arbitrary: l)
  case Nil
  then show ?case by simp
next
  case (Cons a pre)
  then show ?case
    by (auto split: prod.splits result.splits option.splits)
qed

lemmas librato_test_simps = test_librato_env_def test_librato_def tag_source_def
  post_gauges_def log_line_def buildGauges_def new_gauge_def Unix_def verifyValue_def
  default_template_def

subsection \<open>The empty batch\<close>

text \<open>
  Claim C7.  For the empty batch \<open>Write\<close> returns nil and leaves the \<open>Librato\<close> value as
  it was: the state of the HTTP client is untouched (no request was issued), and nothing
  was logged (no gauge was built).
\<close>

theorem Write_empty_batch: "Write E l [] = (Done None, l)"
  by (simp add: Write_def)

subsection \<open>Batches of at most 300 gauges\<close>

text \<open>
  Claim C9.  \<open>Write\<close> posts the gauges it has built as the consecutive chunks of at most
  300 of them, in order, one after the other, until a post fails: the loop over
  \<open>writeBatch\<close> is \<open>post_in_order\<close> on \<open>chunks 300\<close>.  The chunks put together are the list
  of gauges, none is empty and none has more than 300 elements.  When the chunks before
  one have been posted and the post of that one fails, the result is that error and the
  final state is the one the failed post leaves: the chunks after it are not posted.
\<close>

theorem Write_batches_of_300:
  "(metrics \<noteq> [] \<longrightarrow>
      Write E l metrics =
        (case metrics_loop E metrics ([], default_template l) of
           (tempGauges, l2) \<Rightarrow> post_in_order E (chunks 300 tempGauges) l2))
   \<and> batch_loop E 0 (int (length gs)) gs l0 = post_in_order E (chunks 300 gs) l0
   \<and> concat (chunks 300 gs) = gs
   \<and> (\<forall>c \<in> set (chunks 300 gs). c \<noteq> [] \<and> length c \<le> 300)
   \<and> (\<forall>pre c post l1 err l'.
         chunks 300 gs = pre @ c # post
         \<and> post_in_order E pre l0 = (Done None, l1)
         \<and> post_gauges E l1 (map Some c) = (Done (Some err), l')
         \<longrightarrow> batch_loop E 0 (int (length gs)) gs l0 = (Done (Some err), l'))"
proof -
  have loop: "batch_loop E 0 (int (length xs)) xs l' = post_in_order E (chunks 300 xs) l'"
    for xs and l' :: "('a, 'b) Librato"
    using batch_loop_chunks[of 0 E xs l'] by simp
  have w: "metrics \<noteq> [] \<longrightarrow>
      Write E l metrics =
        (case metrics_loop E metrics ([], default_template l) of
           (tempGauges, l2) \<Rightarrow> post_in_order E (chunks 300 tempGauges) l2)"
    by (simp add: Write_def loop split: prod.splits)
  have f: "\<forall>pre c post l1 err l'.
         chunks 300 gs = pre @ c # post
         \<and> post_in_order E pre l0 = (Done None, l1)
         \<and> post_gauges E l1 (map Some c) = (Done (Some err), l')
         \<longrightarrow> batch_loop E 0 (int (length gs)) gs l0 = (Done (Some err), l')"
    using post_in_order_fails[of E _ l0] by (simp add: loop)
  show ?thesis
    using w loop[of gs l0] f chunks_bounded[of _ 300 gs] by (simp add: chunks_concat)
qed

lemma chunks_301: "chunks 300 (replicate 301 g) = [replicate 300 g] @ [g] # []"
proof -
  have "chunks 300 (replicate 301 g) = replicate 300 g # chunks 300 (replicate 1 g)"
    by (subst chunks.simps) simp
  also have "chunks 300 (replicate 1 g) = [g] # chunks 300 []"
    by (subst chunks.simps) simp
  also have "chunks 300 ([] :: 'a list) = []"
    by (subst chunks.simps) simp
  finally show ?thesis by simp
qed

lemma decimal_300: "decimal 300 = ''300''"
  by code_simp

lemma decimal_1: "decimal (Suc 0) = ''1''"
  by code_simp

lemma decimal_500: "decimal 500 = ''500''"
  by code_simp

theorem Write_batches_of_300_witness:
  "chunks 300 (replicate 301 test_gauge) = [replicate 300 test_gauge] @ [test_gauge] # []
   \<and> batch_loop test_librato_env 0 301 (replicate 301 test_gauge) (test_librato 1) =
       (Done (Some (Error ''received bad status code, 500\<newline> quota exceeded'')),
        (test_librato 1)\<lparr>client := ([test_request ''300'', test_request ''1''], 0),
                          Log := [Debugf_request ''300'', Debugf_request ''1'']\<rparr>)"
proof -
  let ?gs = "replicate 301 test_gauge"
  let ?l1 = "(test_librato 1)\<lparr>client := ([test_request ''300''], 0),
                          Log := [Debugf_request ''300'']\<rparr>"
  let ?l' = "(test_librato 1)\<lparr>client := ([test_request ''300'', test_request ''1''], 0),
                          Log := [Debugf_request ''300'', Debugf_request ''1'']\<rparr>"
  let ?err = "Error ''received bad status code, 500\<newline> quota exceeded''"
  have h1: "chunks 300 ?gs = [replicate 300 test_gauge] @ [test_gauge] # []"
    by (rule chunks_301)
  have h2: "post_in_order test_librato_env [replicate 300 test_gauge] (test_librato 1) = (Done None, ?l1)"
    by (simp add: librato_test_simps decimal_300 test_request_def)
  have h3: "post_gauges test_librato_env ?l1 (map Some [test_gauge]) = (Done (Some ?err), ?l')"
    by (simp add: librato_test_simps decimal_1 decimal_500 test_request_def format_d_def)
  note fails = Write_batches_of_300[where gs = ?gs and E = test_librato_env
      and ?l0.0 = "test_librato 1", THEN conjunct2, THEN conjunct2, THEN conjunct2,
      THEN conjunct2, rule_format]
  have "batch_loop test_librato_env 0 (int (length ?gs)) ?gs (test_librato 1) = (Done (Some ?err), ?l')"
    by (rule fails[OF conjI[OF h1 conjI[OF h2 h3]]])
  then show ?thesis using h1 by simp
qed

subsection \<open>One gauge for each field that is not a string\<close>

lemma fields_loop_model_types:
  "\<forall>(k, v) \<in> set fs. of_model_type v \<Longrightarrow>
   \<exists>gs. fields_loop E m src fs acc = Inr (acc @ gs)
      \<and> list_all2 (\<lambda>g (k, v). setValue E (new_gauge E m src k) v = Inr g) gs
           (filter (\<lambda>(k, v). \<not> is_string v) fs)"
proof (induction fs arbitrary: acc)
  case Nil
  then show ?case by simp
next
  case (Cons f fs)
  obtain k v where f: "f = (k, v)" by (cases f)
  from Cons.prems have rest: "\<forall>(k, v) \<in> set fs. of_model_type v" by simp
  from Cons.prems f have mt: "of_model_type v" by simp
  show ?case
  proof (cases v)
    case (VString s)
    with Cons.IH[OF rest, of acc] f show ?thesis by (simp add: verifyValue_def)
  next
    case (VOther r)
    with mt show ?thesis by simp
  next
    case (VInt64 d)
    let ?g = "(new_gauge E m src k)\<lparr>Value := float64_of_int64 E d\<rparr>"
    from Cons.IH[OF rest, of "acc @ [?g]"] obtain gs where
      "fields_loop E m src fs (acc @ [?g]) = Inr (acc @ ?g # gs)"
      "list_all2 (\<lambda>g (k, v). setValue E (new_gauge E m src k) v = Inr g) gs
           (filter (\<lambda>(k, v). \<not> is_string v) fs)" by auto
    then show ?thesis using f VInt64 by (simp add: verifyValue_def)
  next
    case (VUint64 d)
    let ?g = "(new_gauge E m src k)\<lparr>Value := float64_of_uint64 E d\<rparr>"
    from Cons.IH[OF rest, of "acc @ [?g]"] obtain gs where
      "fields_loop E m src fs (acc @ [?g]) = Inr (acc @ ?g # gs)"
      "list_all2 (\<lambda>g (k, v). setValue E (new_gauge E m src k) v = Inr g) gs
           (filter (\<lambda>(k, v). \<not> is_string v) fs)" by auto
    then show ?thesis using f VUint64 by (simp add: verifyValue_def)
  next
    case (VFloat64 d)
    let ?g = "(new_gauge E m src k)\<lparr>Value := d\<rparr>"
    from Cons.IH[OF rest, of "acc @ [?g]"] obtain gs where
      "fields_loop E m src fs (acc @ [?g]) = Inr (acc @ ?g # gs)"
      "list_all2 (\<lambda>g (k, v). setValue E (new_gauge E m src k) v = Inr g) gs
           (filter (\<lambda>(k, v). \<not> is_string v) fs)" by auto
    then show ?thesis using f VFloat64 by (simp add: verifyValue_def)
  next
    case (VBool d)
    let ?g = "if d then (new_gauge E m src k)\<lparr>Value := float64_one E\<rparr>
              else (new_gauge E m src k)\<lparr>Value := float64_zero E\<rparr>"
    from Cons.IH[OF rest, of "acc @ [?g]"] obtain gs where
      "fields_loop E m src fs (acc @ [?g]) = Inr (acc @ ?g # gs)"
      "list_all2 (\<lambda>g (k, v). setValue E (new_gauge E m src k) v = Inr g) gs
           (filter (\<lambda>(k, v). \<not> is_string v) fs)" by auto
    then show ?thesis using f VBool by (simp add: verifyValue_def Let_def)
  qed
qed

text \<open>
  Claim C10.  For a metric whose field values are of the model's types and whose source,
  derived from its tags and the template, is not empty, \<open>buildGauges\<close> returns an error
  exactly when the Unix time of the metric is zero.  Otherwise it returns the gauges of
  the fields whose value is not a string, one for each in the order of the loop, and its
  only effect is one debug line.
\<close>

theorem buildGauges_error_iff_time_zero:
  assumes "\<forall>(k, v) \<in> set (mFields m). of_model_type v"
    and "metricSource_of E (mTags m) (Template l) \<noteq> []"
  shows "((\<exists>err. fst (buildGauges E l m) = Inl err) \<longleftrightarrow> Unix (mTime m) = 0)
     \<and> (Unix (mTime m) \<noteq> 0 \<longrightarrow>
          (\<exists>gauges. buildGauges E l m = (Inr gauges, log_line (Debugf_built_gauges gauges) l)
             \<and> length gauges = length (filter (\<lambda>(k, v). \<not> is_string v) (mFields m))
             \<and> list_all2
                  (\<lambda>g (k, v).
                     setValue E (new_gauge E m (metricSource_of E (mTags m) (Template l)) k) v = Inr g)
                  gauges (filter (\<lambda>(k, v). \<not> is_string v) (mFields m))))"
proof (cases "Unix (mTime m) = 0")
  case True
  then show ?thesis by (simp add: buildGauges_def)
next
  case False
  let ?src = "metricSource_of E (mTags m) (Template l)"
  from fields_loop_model_types[OF assms(1), of E m ?src "[]"] obtain gs where
    gs: "fields_loop E m ?src (mFields m) [] = Inr gs"
    "list_all2 (\<lambda>g (k, v). setValue E (new_gauge E m ?src k) v = Inr g) gs
           (filter (\<lambda>(k, v). \<not> is_string v) (mFields m))" by auto
  from gs(2) have "length gs = length (filter (\<lambda>(k, v). \<not> is_string v) (mFields m))"
    by (rule list_all2_lengthD)
  with gs False assms(2) show ?thesis
    by (simp add: buildGauges_def Let_def)
qed

theorem buildGauges_error_iff_time_zero_witness:
  "map (of_model_type \<circ> snd) (mFields test_metric) = [True, True, True]
   \<and> metricSource_of test_librato_env (mTags test_metric) ''host'' \<noteq> []
   \<and> Unix (mTime test_metric) \<noteq> 0
   \<and> fst (buildGauges test_librato_env (default_template (test_librato 1)) test_metric) =
       Inr [\<lparr>Name = ''cpu.usage'', Value = 15, Source = ''a-b'', MeasureTime = 5\<rparr>,
            \<lparr>Name = ''cpu'', Value = 1, Source = ''a-b'', MeasureTime = 5\<rparr>]"
proof -
  let ?l = "default_template (test_librato 1)"
  have t: "Template ?l = ''host''" by (simp add: librato_test_simps)
  have h1: "\<forall>(k, v) \<in> set (mFields test_metric). of_model_type v"
    by (simp add: test_metric_def)
  have h2: "metricSource_of test_librato_env (mTags test_metric) (Template ?l) \<noteq> []"
    by (simp add: librato_test_simps test_metric_def)
  have h3: "Unix (mTime test_metric) \<noteq> 0" by (simp add: Unix_def test_metric_def)
  have run: "fst (buildGauges test_librato_env ?l test_metric) =
       Inr [\<lparr>Name = ''cpu.usage'', Value = 15, Source = ''a-b'', MeasureTime = 5\<rparr>,
            \<lparr>Name = ''cpu'', Value = 1, Source = ''a-b'', MeasureTime = 5\<rparr>]"
    by (simp add: librato_test_simps test_metric_def replace_unaccepted_def accepted_char_def)
  from buildGauges_error_iff_time_zero[OF h1 h2] h3
  have "\<not> (\<exists>err. fst (buildGauges test_librato_env ?l test_metric) = Inl err)" by simp
  moreover have "map (of_model_type \<circ> snd) (mFields test_metric) = [True, True, True]"
    by (simp add: test_metric_def)
  ultimately show ?thesis using h2 h3 run t by simp
qed

end
